theory Spec2Isabelle
  imports Complex_Main
begin

section \<open>Python primitives used by the decoders\<close>

text \<open>
  The two modules \<^verbatim>\<open>resistor_decoder.py\<close> and \<^verbatim>\<open>capacitor_decoder.py\<close> compute with
  Python \<^verbatim>\<open>int\<close> and \<^verbatim>\<open>float\<close>. Both are modelled by \<^typ>\<open>real\<close> (integers that stay
  integers, such as band digits and voltages, by \<^typ>\<open>int\<close>): every arithmetic
  operation is exact, so the model describes the algorithms and not the rounding of IEEE
  doubles. Strings are \<^typ>\<open>string\<close>, one \<^typ>\<open>char\<close> per code point below 256
  (\<^verbatim>\<open>CHR 0xB5\<close> is the micro sign).
\<close>

subsection \<open>Numbers\<close>

text \<open>\<^verbatim>\<open>round(x)\<close>: the nearest integer, a tie going to the even neighbour.\<close>

definition py_round :: "real \<Rightarrow> int" where
  "py_round x = (let f = \<lfloor>x\<rfloor>; r = x - of_int f in
     if r < 1 / 2 then f else if 1 / 2 < r then f + 1 else if even f then f else f + 1)"


text \<open>
  \<^verbatim>\<open>math.floor(math.log10(x))\<close> for \<open>x > 0\<close>, computed by scaling \<open>x\<close> into \<open>[1, 10)\<close>.
  (\<^verbatim>\<open>math.log10\<close> raises for \<open>x \<le> 0\<close>; every caller tests \<open>x > 0\<close> first.)
\<close>

function floor_log10 :: "real \<Rightarrow> int" where
  "floor_log10 x = (if x \<le> 0 then 0 else if x < 1 then floor_log10 (x * 10) - 1
     else if 10 \<le> x then floor_log10 (x / 10) + 1 else 0)"
  by pat_completeness auto
termination
proof (relation "measure (\<lambda>x. if x < 1 then 10 + nat \<lceil>1 / x\<rceil> else nat \<lfloor>x\<rfloor>)", goal_cases)
  case 1
  show ?case by simp
next
  case (2 x)
  then have x: "0 < x" "x < 1" by auto
  show ?case
  proof (cases "x * 10 < 1")
    case True
    have y: "10 < 1 / x" using True x by (simp add: field_simps)
    have "1 / (x * 10) \<le> 1 / x - 9" using y x by (simp add: field_simps)
    then have "\<lceil>1 / (x * 10)\<rceil> \<le> \<lceil>1 / x - 9\<rceil>" by (rule ceiling_mono)
    also have "\<dots> = \<lceil>1 / x\<rceil> - 9" by (rule ceiling_diff_numeral)
    finally have lt: "\<lceil>1 / (x * 10)\<rceil> < \<lceil>1 / x\<rceil>" by linarith
    have pos: "0 < \<lceil>1 / x\<rceil>" using y x by (simp add: less_ceiling_iff)
    have "nat \<lceil>1 / (x * 10)\<rceil> < nat \<lceil>1 / x\<rceil>" using lt pos by linarith
    then show ?thesis using x True by (simp only: in_measure if_True)
  next
    case False
    have "x * 10 < 10" using x by simp
    then have "\<lfloor>x * 10\<rfloor> < 10" by (simp only: floor_less_iff of_int_numeral)
    then have "nat \<lfloor>x * 10\<rfloor> < 10 + nat \<lceil>1 / x\<rceil>" by linarith
    then show ?thesis using x False by (simp only: in_measure if_True if_False)
  qed
next
  case (3 x)
  then have x: "10 \<le> x" by auto
  have "x / 10 \<le> x - 9" using x by simp
  then have "\<lfloor>x / 10\<rfloor> \<le> \<lfloor>x - 9\<rfloor>" by (rule floor_mono)
  also have "\<dots> = \<lfloor>x\<rfloor> - 9" by (rule floor_diff_numeral)
  finally have lt: "\<lfloor>x / 10\<rfloor> < \<lfloor>x\<rfloor>" by linarith
  have pos: "0 < \<lfloor>x\<rfloor>" using x by (simp add: less_floor_iff)
  have n: "nat \<lfloor>x / 10\<rfloor> < nat \<lfloor>x\<rfloor>" using lt pos by linarith
  have a: "\<not> x < 1" "\<not> x / 10 < 1" using x by simp_all
  show ?case using n a by (simp only: in_measure if_False)
qed

declare floor_log10.simps [simp del]

text \<open>\<^verbatim>\<open>10 ** k\<close> for an integer \<open>k\<close> of either sign.\<close>

definition pow10 :: "int \<Rightarrow> real" where
  "pow10 k = (if 0 \<le> k then 10 ^ nat k else 1 / 10 ^ nat (- k))"

subsection \<open>Strings\<close>

text \<open>\<^verbatim>\<open>str.isspace\<close> (also the class \<^verbatim>\<open>\s\<close> of \<^verbatim>\<open>re\<close>) on code points below 256.\<close>

definition is_space :: "char \<Rightarrow> bool" where
  "is_space c = (c \<in> set [CHR 0x09, CHR 0x0A, CHR 0x0B, CHR 0x0C, CHR 0x0D, CHR 0x1C,
     CHR 0x1D, CHR 0x1E, CHR 0x1F, CHR 0x20, CHR 0x85, CHR 0xA0])"

definition py_strip :: "string \<Rightarrow> string" where
  "py_strip s = rev (dropWhile is_space (rev (dropWhile is_space s)))"

text \<open>\<^verbatim>\<open>str.lower\<close> and \<^verbatim>\<open>str.upper\<close>: ASCII letters and the Latin-1 letters whose
  counterpart is below 256.\<close>

definition lower_char :: "char \<Rightarrow> char" where
  "lower_char c = (let n = (of_char c :: nat) in
     if (65 \<le> n \<and> n \<le> 90) \<or> (192 \<le> n \<and> n \<le> 222 \<and> n \<noteq> 215) then char_of (n + 32) else c)"

definition py_lower :: "string \<Rightarrow> string" where
  "py_lower s = map lower_char s"

definition upper_char :: "char \<Rightarrow> char" where
  "upper_char c = (let n = (of_char c :: nat) in
     if (97 \<le> n \<and> n \<le> 122) \<or> (224 \<le> n \<and> n \<le> 254 \<and> n \<noteq> 247) then char_of (n - 32) else c)"

definition py_upper :: "string \<Rightarrow> string" where
  "py_upper s = map upper_char s"

section \<open>resistor_decoder.py\<close>

subsection \<open>Errors\<close>

text \<open>
  Every \<^verbatim>\<open>raise ValueError(...)\<close> of the two modules is one constructor of \<open>vmsg\<close> (its
  message), with the value the message interpolates. A failed dictionary subscript that
  no handler catches is \<open>KeyError\<close> with its key.
\<close>

datatype pykey = KInt int | KFloat real | KStr string

datatype vmsg =
    UnsupportedColor5 string
  | UnsupportedColor4 string
  | ExpectedBands nat
  | ToleranceNotAvailable real
  | ResistanceNotPositive
  | CannotRepresent5 real
  | EmptyMarking
  | UnableToDecode string
  | ProvideExactlyOne
  | CapacitanceNotPositive
  | ToleranceNoLetter real
  | CannotRepresentEIA real

datatype error = ValueError vmsg | KeyError pykey

subsection \<open>Lookup tables\<close>


definition DIGIT_TO_COLOR :: "(int \<times> string) list" where
  "DIGIT_TO_COLOR = [(0, ''black''), (1, ''brown''), (2, ''red''), (3, ''orange''),
     (4, ''yellow''), (5, ''green''), (6, ''blue''), (7, ''violet''), (8, ''gray''),
     (9, ''white'')]"


definition MULTIPLIER_TO_COLOR :: "(real \<times> string) list" where
  "MULTIPLIER_TO_COLOR = [(1, ''black''), (10, ''brown''), (100, ''red''), (1000, ''orange''),
     (10000, ''yellow''), (100000, ''green''), (1000000, ''blue''), (10000000, ''violet''),
     (100000000, ''gray''), (1000000000, ''white''), (1 / 10, ''gold''), (1 / 100, ''silver'')]"


definition TOLERANCE_TO_COLOR :: "(real \<times> string) list" where
  "TOLERANCE_TO_COLOR = [(1 / 20, ''gray''), (1 / 10, ''violet''), (1 / 4, ''blue''),
     (1 / 2, ''green''), (1, ''brown''), (2, ''red''), (5, ''gold''), (10, ''silver'')]"






subsection \<open>Data models\<close>

record ResistorValue =
  ohms :: real
  tolerance_percent :: "real option"
  bands :: "string list"
  e_series_match :: "string option"
  nearest_standard :: "real option"

record EncodedResistor =
  ohms :: real
  bands_5 :: "string list"
  bands_4 :: "string list option"
  tolerance_color :: string
  tolerance_percent :: real

subsection \<open>E-series validation\<close>





subsection \<open>Decoder (bands to value)\<close>





subsection \<open>Encoder (value to bands)\<close>

text \<open>\<^verbatim>\<open>DIGIT_TO_COLOR[d]\<close> and \<^verbatim>\<open>MULTIPLIER_TO_COLOR[m]\<close>: a missing key raises.\<close>

definition digit_color :: "int \<Rightarrow> error + string" where
  "digit_color d = (case map_of DIGIT_TO_COLOR d of
     None \<Rightarrow> Inl (KeyError (KInt d)) | Some c \<Rightarrow> Inr c)"

definition multiplier_color :: "real \<Rightarrow> error + string" where
  "multiplier_color m = (case map_of MULTIPLIER_TO_COLOR m of
     None \<Rightarrow> Inl (KeyError (KFloat m)) | Some c \<Rightarrow> Inr c)"

text \<open>The tuple returned inside the loops of \<^verbatim>\<open>_encode_5band\<close>; its five subscripts are
  evaluated in order.\<close>

definition make_bands_5 :: "int \<Rightarrow> real \<Rightarrow> string \<Rightarrow> error + string list" where
  "make_bands_5 sig mult_value tol_color =
     (let d1 = sig div 100; d2 = (sig div 10) mod 10; d3 = sig mod 10 in
      case digit_color d1 of Inl e \<Rightarrow> Inl e | Inr c1 \<Rightarrow>
      case digit_color d2 of Inl e \<Rightarrow> Inl e | Inr c2 \<Rightarrow>
      case digit_color d3 of Inl e \<Rightarrow> Inl e | Inr c3 \<Rightarrow>
      case multiplier_color mult_value of Inl e \<Rightarrow> Inl e | Inr cm \<Rightarrow>
        Inr [c1, c2, c3, cm, tol_color])"

definition make_bands_4 :: "int \<Rightarrow> real \<Rightarrow> string \<Rightarrow> error + string list" where
  "make_bands_4 sig mult_value tol_color =
     (let d1 = sig div 10; d2 = sig mod 10 in
      case digit_color d1 of Inl e \<Rightarrow> Inl e | Inr c1 \<Rightarrow>
      case digit_color d2 of Inl e \<Rightarrow> Inl e | Inr c2 \<Rightarrow>
      case multiplier_color mult_value of Inl e \<Rightarrow> Inl e | Inr cm \<Rightarrow>
        Inr [c1, c2, cm, tol_color])"

text \<open>
  The two loops of \<^verbatim>\<open>_encode_5band\<close>. \<open>None\<close> means that the loop ended without
  returning; \<open>Some r\<close> is the \<^verbatim>\<open>return\<close> (or the exception) of its body. The first loop
  runs over \<^verbatim>\<open>sorted(MULTIPLIER_TO_COLOR.keys())\<close> with the bound 0.001, the second over
  \<^verbatim>\<open>(0.1, 0.01)\<close> with the bound 0.01.
\<close>

fun sorted_loop_5 :: "real list \<Rightarrow> real \<Rightarrow> string \<Rightarrow> (error + string list) option" where
  "sorted_loop_5 [] ohms_v tol_color = None"
| "sorted_loop_5 (mult_value # rest) ohms_v tol_color =
     (if mult_value \<le> 0 then sorted_loop_5 rest ohms_v tol_color
      else
        let candidate = ohms_v / mult_value in
        if 995 / 10 \<le> candidate \<and> candidate \<le> 9995 / 10 then
          (let sig = py_round candidate in
           if \<bar>of_int sig * mult_value - ohms_v\<bar> / max ohms_v (1 / 10 ^ 12) < 1 / 1000
           then Some (make_bands_5 sig mult_value tol_color)
           else sorted_loop_5 rest ohms_v tol_color)
        else sorted_loop_5 rest ohms_v tol_color)"

fun fractional_loop_5 :: "real list \<Rightarrow> real \<Rightarrow> string \<Rightarrow> (error + string list) option" where
  "fractional_loop_5 [] ohms_v tol_color = None"
| "fractional_loop_5 (mult_value # rest) ohms_v tol_color =
     (let candidate = ohms_v / mult_value in
      if 995 / 10 \<le> candidate \<and> candidate \<le> 9995 / 10 then
        (let sig = py_round candidate in
         if \<bar>of_int sig * mult_value - ohms_v\<bar> / max ohms_v (1 / 10 ^ 12) < 1 / 100
         then Some (make_bands_5 sig mult_value tol_color)
         else fractional_loop_5 rest ohms_v tol_color)
      else fractional_loop_5 rest ohms_v tol_color)"

definition encode_5band :: "real \<Rightarrow> string \<Rightarrow> error + string list" where
  "encode_5band ohms_v tol_color =
     (if ohms_v \<le> 0 then Inl (ValueError ResistanceNotPositive)
      else case sorted_loop_5 (sort (map fst MULTIPLIER_TO_COLOR)) ohms_v tol_color of
             Some r \<Rightarrow> r
           | None \<Rightarrow>
               (case fractional_loop_5 [1 / 10, 1 / 100] ohms_v tol_color of
                  Some r \<Rightarrow> r
                | None \<Rightarrow> Inl (ValueError (CannotRepresent5 ohms_v))))"

text \<open>The same two loops in \<^verbatim>\<open>_encode_4band\<close>, for a significand in \<open>[9.5, 99.5]\<close>.\<close>

fun sorted_loop_4 :: "real list \<Rightarrow> real \<Rightarrow> string \<Rightarrow> (error + string list) option" where
  "sorted_loop_4 [] ohms_v tol_color = None"
| "sorted_loop_4 (mult_value # rest) ohms_v tol_color =
     (if mult_value \<le> 0 then sorted_loop_4 rest ohms_v tol_color
      else
        let candidate = ohms_v / mult_value in
        if 95 / 10 \<le> candidate \<and> candidate \<le> 995 / 10 then
          (let sig = py_round candidate in
           if \<bar>of_int sig * mult_value - ohms_v\<bar> / max ohms_v (1 / 10 ^ 12) < 1 / 1000
           then Some (make_bands_4 sig mult_value tol_color)
           else sorted_loop_4 rest ohms_v tol_color)
        else sorted_loop_4 rest ohms_v tol_color)"

fun fractional_loop_4 :: "real list \<Rightarrow> real \<Rightarrow> string \<Rightarrow> (error + string list) option" where
  "fractional_loop_4 [] ohms_v tol_color = None"
| "fractional_loop_4 (mult_value # rest) ohms_v tol_color =
     (let candidate = ohms_v / mult_value in
      if 95 / 10 \<le> candidate \<and> candidate \<le> 995 / 10 then
        (let sig = py_round candidate in
         if \<bar>of_int sig * mult_value - ohms_v\<bar> / max ohms_v (1 / 10 ^ 12) < 1 / 100
         then Some (make_bands_4 sig mult_value tol_color)
         else fractional_loop_4 rest ohms_v tol_color)
      else fractional_loop_4 rest ohms_v tol_color)"

text \<open>\<^verbatim>\<open>_encode_4band\<close> returns \<^verbatim>\<open>None\<close> when no multiplier fits: \<open>Inr None\<close>.\<close>

definition encode_4band :: "real \<Rightarrow> string \<Rightarrow> error + string list option" where
  "encode_4band ohms_v tol_color =
     (case sorted_loop_4 (sort (map fst MULTIPLIER_TO_COLOR)) ohms_v tol_color of
        Some r \<Rightarrow> map_sum id Some r
      | None \<Rightarrow>
          (case fractional_loop_4 [1 / 10, 1 / 100] ohms_v tol_color of
             Some r \<Rightarrow> map_sum id Some r
           | None \<Rightarrow> Inr None))"

definition encode_resistor :: "real \<Rightarrow> real \<Rightarrow> error + EncodedResistor" where
  "encode_resistor ohms_v tolerance =
     (case map_of TOLERANCE_TO_COLOR tolerance of
        None \<Rightarrow> Inl (ValueError (ToleranceNotAvailable tolerance))
      | Some tol_color \<Rightarrow>
          (case encode_5band ohms_v tol_color of
             Inl e \<Rightarrow> Inl e
           | Inr b5 \<Rightarrow>
               (case encode_4band ohms_v tol_color of
                  Inl e \<Rightarrow> Inl e
                | Inr b4 \<Rightarrow>
                    Inr \<lparr>EncodedResistor.ohms = ohms_v, bands_5 = b5, bands_4 = b4,
                         tolerance_color = tol_color,
                         EncodedResistor.tolerance_percent = tolerance\<rparr>)))"

section \<open>capacitor_decoder.py\<close>

subsection \<open>More Python primitives: parsing and printing numbers\<close>

definition is_digit :: "char \<Rightarrow> bool" where
  "is_digit c = (c \<in> set ''0123456789'')"

definition digit_val :: "char \<Rightarrow> int" where
  "digit_val c = int (of_char c) - 48"

text \<open>\<^verbatim>\<open>int(s)\<close> for a string of decimal digits.\<close>

definition py_int :: "string \<Rightarrow> int" where
  "py_int s = foldl (\<lambda>a c. 10 * a + digit_val c) 0 s"

text \<open>\<^verbatim>\<open>float(s)\<close> for the strings the patterns capture: digits, then optionally a point
  and more digits.\<close>

definition py_float :: "string \<Rightarrow> real" where
  "py_float s = (let ip = takeWhile is_digit s; fp = drop (length ip + 1) s in
     of_int (py_int ip) + of_int (py_int fp) / 10 ^ length fp)"

text \<open>\<^verbatim>\<open>int(x)\<close> for a float: truncation towards zero.\<close>

definition py_trunc :: "real \<Rightarrow> int" where
  "py_trunc x = (if 0 \<le> x then \<lfloor>x\<rfloor> else \<lceil>x\<rceil>)"

text \<open>\<^verbatim>\<open>str(n)\<close> for an integer.\<close>

function str_nat :: "nat \<Rightarrow> string" where
  "str_nat n = (if n < 10 then [char_of (48 + n)] else str_nat (n div 10) @ [char_of (48 + n mod 10)])"
  by pat_completeness auto
termination
  by (relation "measure id") auto

declare str_nat.simps [simp del]

definition py_str :: "int \<Rightarrow> string" where
  "py_str i = (if i < 0 then CHR ''-'' # str_nat (nat (- i)) else str_nat (nat i))"

definition zfill :: "nat \<Rightarrow> string \<Rightarrow> string" where
  "zfill w s = replicate (w - length s) CHR ''0'' @ s"

definition lstrip :: "string \<Rightarrow> string \<Rightarrow> string" where
  "lstrip chars s = dropWhile (\<lambda>c. c \<in> set chars) s"

definition rstrip :: "string \<Rightarrow> string \<Rightarrow> string" where
  "rstrip chars s = rev (dropWhile (\<lambda>c. c \<in> set chars) (rev s))"

text \<open>
  The format specification \<^verbatim>\<open>.3g\<close>: the number is rounded to three significant digits
  \<open>n\<close> (so \<open>100 \<le> n \<le> 999\<close>) with decimal exponent \<open>e\<close>; for \<open>-4 \<le> e < 3\<close> it is printed in
  fixed notation with \<open>2 - e\<close> decimals, otherwise in scientific notation with two
  decimals and an exponent of at least two digits; in both cases trailing zeros of the
  fraction go, and a point with nothing after it goes too.
\<close>

definition strip_fraction :: "string \<Rightarrow> string \<Rightarrow> string" where
  "strip_fraction ip fp = (let f = rstrip ''0'' fp in if f = [] then ip else ip @ ''.'' @ f)"

definition fmt_3g_pos :: "real \<Rightarrow> string" where
  "fmt_3g_pos x =
     (let e0 = floor_log10 x;
          n0 = py_round (x / pow10 (e0 - 2));
          n = (if n0 = 1000 then 100 else n0);
          e = (if n0 = 1000 then e0 + 1 else e0)
      in if - 4 \<le> e \<and> e < 3 then
           (let w = nat (2 - e) in
            strip_fraction (py_str (n div 10 ^ w)) (zfill w (py_str (n mod 10 ^ w))))
         else
           strip_fraction (py_str (n div 100)) (zfill 2 (py_str (n mod 100)))
             @ ''e'' @ (if e < 0 then ''-'' else ''+'') @ zfill 2 (py_str \<bar>e\<bar>))"

definition fmt_3g :: "real \<Rightarrow> string" where
  "fmt_3g x = (if x = 0 then ''0'' else if x < 0 then CHR ''-'' # fmt_3g_pos (- x)
     else fmt_3g_pos x)"

subsection \<open>Regular expressions\<close>

text \<open>
  The four patterns of the module are sequences of greedy repetitions of a character
  class, anchored at both ends and compiled with \<^verbatim>\<open>re.IGNORECASE\<close>. An item
  \<open>Item P lo hi opt g\<close> is the class \<open>P\<close> repeated between \<open>lo\<close> and \<open>hi\<close> times
  (\<open>hi = None\<close>: unbounded), the whole repetition optional when \<open>opt\<close> holds, inside the
  capturing group \<open>g\<close> (0: outside every group). The matcher backtracks as \<^verbatim>\<open>re\<close> does:
  the longest repetition first, then shorter ones, and an optional item left out last; the
  groups are those of the first path that reaches the end of the string. A group that
  took no part in the match and a group that matched the empty string are both \<open>[]\<close>;
  the module tests groups by truth value only, which cannot tell them apart.
\<close>

datatype item = Item "char \<Rightarrow> bool" nat "nat option" bool nat

text \<open>\<open>backtrack f lo opt k\<close>: try \<open>f\<close> at the lengths \<open>k, k - 1, \<dots>, lo\<close>, then at
  \<open>0\<close> if the item is optional.\<close>

fun backtrack :: "(nat \<Rightarrow> 'a option) \<Rightarrow> nat \<Rightarrow> bool \<Rightarrow> nat \<Rightarrow> 'a option" where
  "backtrack f lo opt 0 = (if lo = 0 \<or> opt then f 0 else None)"
| "backtrack f lo opt (Suc k) =
     (if Suc k < lo then (if opt then f 0 else None)
      else case f (Suc k) of Some r \<Rightarrow> Some r | None \<Rightarrow> backtrack f lo opt k)"

fun re_match :: "item list \<Rightarrow> string \<Rightarrow> (nat \<Rightarrow> string) \<Rightarrow> (nat \<Rightarrow> string) option" where
  "re_match [] s caps = (if s = [] then Some caps else None)"
| "re_match (Item P lo hi opt g # rest) s caps =
     (let n = length (takeWhile P s);
          kmax = (case hi of None \<Rightarrow> n | Some h \<Rightarrow> min n h)
      in backtrack (\<lambda>k. re_match rest (drop k s) (caps(g := caps g @ take k s))) lo opt kmax)"

definition re_groups :: "item list \<Rightarrow> string \<Rightarrow> (nat \<Rightarrow> string) option" where
  "re_groups pat s = re_match pat s (\<lambda>g. [])"


text \<open>The character classes, with the case-insensitive flag applied.\<close>

definition cls_dot :: "char \<Rightarrow> bool" where
  "cls_dot c = (c = CHR ''.'')"

definition cls_unit :: "char \<Rightarrow> bool" where
  "cls_unit c = (c \<in> set [CHR ''p'', CHR ''n'', CHR ''u'', CHR 0xB5, CHR ''P'', CHR ''N'', CHR ''U''])"

definition cls_micro :: "char \<Rightarrow> bool" where
  "cls_micro c = (c \<in> set [CHR ''u'', CHR 0xB5, CHR ''U''])"

definition cls_f :: "char \<Rightarrow> bool" where
  "cls_f c = (c \<in> set [CHR ''f'', CHR ''F''])"

definition cls_tol :: "char \<Rightarrow> bool" where
  "cls_tol c = (let n = (of_char c :: nat) in
     (65 \<le> n \<and> n \<le> 77) \<or> n = 90 \<or> (97 \<le> n \<and> n \<le> 109) \<or> n = 122)"

definition cls_sep :: "char \<Rightarrow> bool" where
  "cls_sep c = (c \<in> set [CHR ''/'', CHR '',''])"

definition cls_v :: "char \<Rightarrow> bool" where
  "cls_v c = (c \<in> set [CHR ''v'', CHR ''V''])"

text \<open>\<^verbatim>\<open>^(\d{2})(\d)(?:([A-MZ]))?(?:(\d{2,4}))?$\<close>\<close>

definition RE_EIA :: "item list" where
  "RE_EIA = [Item is_digit 2 (Some 2) False 1, Item is_digit 1 (Some 1) False 2,
     Item cls_tol 1 (Some 1) True 3, Item is_digit 2 (Some 4) True 4]"

text \<open>\<^verbatim>\<open>^(\d+\.?\d*)\s*([pnu\u00b5]f?)\s*([A-MZ])?\s*(\d{2,4})?$\<close>\<close>

definition RE_ALPHA :: "item list" where
  "RE_ALPHA = [Item is_digit 1 None False 1, Item cls_dot 0 (Some 1) False 1,
     Item is_digit 0 None False 1, Item is_space 0 None False 0,
     Item cls_unit 1 (Some 1) False 2, Item cls_f 0 (Some 1) False 2,
     Item is_space 0 None False 0, Item cls_tol 1 (Some 1) True 3,
     Item is_space 0 None False 0, Item is_digit 2 (Some 4) True 4]"

text \<open>\<^verbatim>\<open>^(\d+)([pnu\u00b5])(\d+)\s*([A-MZ])?\s*(\d{2,4})?$\<close>\<close>

definition RE_RDECIMAL :: "item list" where
  "RE_RDECIMAL = [Item is_digit 1 None False 1, Item cls_unit 1 (Some 1) False 2,
     Item is_digit 1 None False 3, Item is_space 0 None False 0,
     Item cls_tol 1 (Some 1) True 4, Item is_space 0 None False 0,
     Item is_digit 2 (Some 4) True 5]"

text \<open>\<^verbatim>\<open>^(\d+\.?\d*)\s*([u\u00b5]f?)\s*[/,]?\s*(\d{1,4})\s*[vV]$\<close>\<close>

definition RE_ELECTROLYTIC :: "item list" where
  "RE_ELECTROLYTIC = [Item is_digit 1 None False 1, Item cls_dot 0 (Some 1) False 1,
     Item is_digit 0 None False 1, Item is_space 0 None False 0,
     Item cls_micro 1 (Some 1) False 2, Item cls_f 0 (Some 1) False 2,
     Item is_space 0 None False 0, Item cls_sep 0 (Some 1) False 0,
     Item is_space 0 None False 0, Item is_digit 1 (Some 4) False 3,
     Item is_space 0 None False 0, Item cls_v 1 (Some 1) False 0]"

subsection \<open>Constants and data models\<close>

datatype CapType = FILM_BOX | CERAMIC | ELECTROLYTIC | TANTALUM | UNKNOWN

definition TOLERANCE_CODES :: "(string \<times> real) list" where
  "TOLERANCE_CODES = [(''B'', 1 / 10), (''C'', 1 / 4), (''D'', 1 / 2), (''F'', 1), (''G'', 2),
     (''J'', 5), (''K'', 10), (''M'', 20), (''Z'', - 20)]"

definition TOLERANCE_TO_LETTER :: "(real \<times> string) list" where
  "TOLERANCE_TO_LETTER = [(1, ''F''), (2, ''G''), (5, ''J''), (10, ''K''), (20, ''M'')]"

definition UNIT_TO_PF :: "(string \<times> real) list" where
  "UNIT_TO_PF = [(''pf'', 1), (''p'', 1), (''nf'', 1000), (''n'', 1000), (''uf'', 1000000),
     (''u'', 1000000), ([CHR 0xB5, CHR ''f''], 1000000), ([CHR 0xB5], 1000000),
     (''mf'', 1000000)]"

record CapUnit =
  pf :: real
  nf :: real
  uf :: real

record DecodedCap =
  capacitance :: CapUnit
  tolerance_percent :: "real option"
  tolerance_letter :: "string option"
  voltage_max :: "int option"
  cap_type :: CapType
  source_code :: string
  confidence :: real

record EncodedCap =
  capacitance :: CapUnit
  eia_code :: string
  alpha_code :: string
  full_film_code :: string
  full_alpha_code :: string
  tolerance_letter :: string
  voltage :: "int option"

definition pf_to_units :: "real \<Rightarrow> CapUnit" where
  "pf_to_units pf_v = \<lparr>pf = pf_v, nf = pf_v / 1000, uf = pf_v / 1000000\<rparr>"

definition nf_to_units :: "real \<Rightarrow> CapUnit" where
  "nf_to_units nf_v = pf_to_units (nf_v * 1000)"

definition uf_to_units :: "real \<Rightarrow> CapUnit" where
  "uf_to_units uf_v = pf_to_units (uf_v * 1000000)"

subsection \<open>Decoder (marking to value)\<close>

definition guess_type_from_pf :: "real \<Rightarrow> int option \<Rightarrow> CapType" where
  "guess_type_from_pf pf_v voltage_v =
     (let uf_v = pf_v / 1000000 in
      if 1 \<le> uf_v then ELECTROLYTIC
      else if pf_v < 1000 then CERAMIC
      else if (case voltage_v of None \<Rightarrow> False | Some v \<Rightarrow> v \<noteq> 0 \<and> 50 \<le> v) then FILM_BOX
      else if 1000 \<le> pf_v \<and> pf_v \<le> 1000000 then FILM_BOX
      else UNKNOWN)"

text \<open>The unit lookup shared by the three unit-bearing grammars: the lower-cased unit, or
  the unit with an \<^verbatim>\<open>f\<close> appended; \<open>None\<close> is the \<^verbatim>\<open>return None\<close> of the \<^verbatim>\<open>else\<close> branch.\<close>

definition unit_multiplier :: "string \<Rightarrow> real option" where
  "unit_multiplier unit_str =
     (let unit_lower = py_lower unit_str in
      case map_of UNIT_TO_PF unit_lower of
        Some m \<Rightarrow> Some m
      | None \<Rightarrow> map_of UNIT_TO_PF (unit_lower @ ''f''))"

text \<open>
  The tail that \<^verbatim>\<open>_try_eia\<close>, \<^verbatim>\<open>_try_alpha\<close> and \<^verbatim>\<open>_try_rdecimal\<close> repeat word for word:
  tolerance letter and percent, voltage, guessed type, and the record. A letter is kept
  only when its percent is truthy (present and not zero).
\<close>

definition decoded_cap :: "real \<Rightarrow> string \<Rightarrow> string \<Rightarrow> string \<Rightarrow> DecodedCap" where
  "decoded_cap pf_v tol_group voltage_str marking =
     (let tol_letter = py_upper tol_group;
          tol_pct = (if tol_group \<noteq> [] then map_of TOLERANCE_CODES tol_letter else None);
          voltage_v = (if voltage_str \<noteq> [] then Some (py_int voltage_str) else None)
      in \<lparr>DecodedCap.capacitance = pf_to_units pf_v,
          DecodedCap.tolerance_percent = tol_pct,
          DecodedCap.tolerance_letter =
            (case tol_pct of None \<Rightarrow> None | Some p \<Rightarrow> if p \<noteq> 0 then Some tol_letter else None),
          voltage_max = voltage_v,
          cap_type = guess_type_from_pf pf_v voltage_v,
          source_code = marking,
          confidence = 1\<rparr>)"

definition try_eia :: "string \<Rightarrow> DecodedCap option" where
  "try_eia marking =
     (case re_groups RE_EIA marking of
        None \<Rightarrow> None
      | Some m \<Rightarrow>
          (let significand = py_int (m 1);
               multiplier = py_int (m 2);
               pf_v = (if multiplier = 8 then of_int significand * (1 / 100)
                       else if multiplier = 9 then of_int significand * (1 / 10)
                       else of_int significand * 10 ^ nat multiplier)
           in Some (decoded_cap pf_v (m 3) (m 4) marking)))"

definition try_alpha :: "string \<Rightarrow> DecodedCap option" where
  "try_alpha marking =
     (case re_groups RE_ALPHA marking of
        None \<Rightarrow> None
      | Some m \<Rightarrow>
          (let value = py_float (m 1) in
           case unit_multiplier (m 2) of
             None \<Rightarrow> None
           | Some multiplier \<Rightarrow> Some (decoded_cap (value * multiplier) (m 3) (m 4) marking)))"

definition try_rdecimal :: "string \<Rightarrow> DecodedCap option" where
  "try_rdecimal marking =
     (case re_groups RE_RDECIMAL marking of
        None \<Rightarrow> None
      | Some m \<Rightarrow>
          (let value = py_float (m 1 @ ''.'' @ m 3) in
           case unit_multiplier (m 2) of
             None \<Rightarrow> None
           | Some multiplier \<Rightarrow> Some (decoded_cap (value * multiplier) (m 4) (m 5) marking)))"

definition try_electrolytic :: "string \<Rightarrow> DecodedCap option" where
  "try_electrolytic marking =
     (case re_groups RE_ELECTROLYTIC marking of
        None \<Rightarrow> None
      | Some m \<Rightarrow>
          (let value = py_float (m 1) in
           case unit_multiplier (m 2) of
             None \<Rightarrow> None
           | Some multiplier \<Rightarrow>
               Some \<lparr>DecodedCap.capacitance = pf_to_units (value * multiplier),
                     DecodedCap.tolerance_percent = Some 20,
                     DecodedCap.tolerance_letter = Some ''M'',
                     voltage_max = Some (py_int (m 3)),
                     cap_type = ELECTROLYTIC,
                     source_code = marking,
                     confidence = 95 / 100\<rparr>))"

definition decode_capacitor :: "string \<Rightarrow> error + DecodedCap" where
  "decode_capacitor marking =
     (let cleaned = py_strip marking in
      if cleaned = [] then Inl (ValueError EmptyMarking)
      else case try_electrolytic cleaned of Some r \<Rightarrow> Inr r | None \<Rightarrow>
           case try_rdecimal cleaned of Some r \<Rightarrow> Inr r | None \<Rightarrow>
           case try_alpha cleaned of Some r \<Rightarrow> Inr r | None \<Rightarrow>
           case try_eia cleaned of Some r \<Rightarrow> Inr r | None \<Rightarrow>
             Inl (ValueError (UnableToDecode cleaned)))"

definition decode_with_type :: "string \<Rightarrow> CapType option \<Rightarrow> error + DecodedCap" where
  "decode_with_type marking type_v =
     (case decode_capacitor marking of
        Inl e \<Rightarrow> Inl e
      | Inr result \<Rightarrow>
          (case type_v of None \<Rightarrow> Inr result | Some t \<Rightarrow> Inr (result\<lparr>cap_type := t\<rparr>)))"

subsection \<open>Encoder (value to markings)\<close>

text \<open>The loop \<^verbatim>\<open>for mult in range(0, 10)\<close> of \<^verbatim>\<open>_encode_eia\<close>, over the remaining
  values of \<^verbatim>\<open>mult\<close>.\<close>

fun eia_loop :: "nat list \<Rightarrow> real \<Rightarrow> string option" where
  "eia_loop [] pf_v = None"
| "eia_loop (mult # rest) pf_v =
     (let divisor = 10 ^ mult; sig = pf_v / divisor in
      if 995 / 100 \<le> sig \<and> sig \<le> 995 / 10 then
        (let sig_int = py_round sig in
         if \<bar>of_int sig_int * divisor - pf_v\<bar> / pf_v < 1 / 1000
         then Some (py_str sig_int @ py_str (int mult))
         else eia_loop rest pf_v)
      else eia_loop rest pf_v)"

definition encode_eia :: "real \<Rightarrow> error + string" where
  "encode_eia pf_v =
     (if pf_v \<le> 0 then Inl (ValueError CapacitanceNotPositive)
      else if pf_v < 10 then
        (let sig = py_round pf_v in
         if 10 \<le> sig then Inr (py_str sig @ ''0'')
         else if 0 < sig then Inr (zfill 2 (py_str sig) @ ''0'')
         else Inl (ValueError (CannotRepresentEIA pf_v)))
      else case eia_loop [0 ..< 10] pf_v of
             Some code \<Rightarrow> Inr code
           | None \<Rightarrow> Inl (ValueError (CannotRepresentEIA pf_v)))"

definition alpha_fmt :: "real \<Rightarrow> string \<Rightarrow> string" where
  "alpha_fmt value unit =
     (if of_int \<lfloor>value\<rfloor> = value then py_str (py_trunc value) @ unit
      else
        let int_part = py_trunc value;
            frac_part = value - of_int int_part;
            frac_str = lstrip ''.'' (lstrip ''0'' (fmt_3g frac_part))
        in if 0 < int_part then py_str int_part @ unit @ frac_str
           else ''0'' @ unit @ frac_str)"

definition encode_alpha :: "real \<Rightarrow> string" where
  "encode_alpha pf_v =
     (let uf_v = pf_v / 1000000; nf_v = pf_v / 1000 in
      if 1 / 10 \<le> uf_v then alpha_fmt uf_v ''u''
      else if 1 / 10 \<le> nf_v then alpha_fmt nf_v ''n''
      else alpha_fmt pf_v ''p'')"

definition encode_capacitor ::
    "real option \<Rightarrow> real option \<Rightarrow> real option \<Rightarrow> real \<Rightarrow> int option \<Rightarrow> error + EncodedCap" where
  "encode_capacitor pf_a nf_a uf_a tolerance voltage_v =
     (let provided = length (filter (\<lambda>x. x \<noteq> None) [pf_a, nf_a, uf_a]) in
      if provided \<noteq> 1 then Inl (ValueError ProvideExactlyOne)
      else
        let pf_val = (case pf_a of Some p \<Rightarrow> p
                      | None \<Rightarrow> (case nf_a of Some n \<Rightarrow> n * 1000
                                  | None \<Rightarrow> (case uf_a of Some u \<Rightarrow> u * 1000000 | None \<Rightarrow> 0)))
        in if pf_val \<le> 0 then Inl (ValueError CapacitanceNotPositive)
           else case map_of TOLERANCE_TO_LETTER tolerance of
                  None \<Rightarrow> Inl (ValueError (ToleranceNoLetter tolerance))
                | Some tol_letter \<Rightarrow>
                    (case encode_eia pf_val of
                       Inl e \<Rightarrow> Inl e
                     | Inr eia \<Rightarrow>
                         (let alpha = encode_alpha pf_val;
                              voltage_str = (case voltage_v of None \<Rightarrow> []
                                             | Some v \<Rightarrow> if v \<noteq> 0 then py_str v else [])
                          in Inr \<lparr>EncodedCap.capacitance = pf_to_units pf_val,
                                  eia_code = eia,
                                  alpha_code = alpha,
                                  full_film_code = eia @ tol_letter @ voltage_str,
                                  full_alpha_code = alpha @ tol_letter @ voltage_str,
                                  EncodedCap.tolerance_letter = tol_letter,
                                  voltage = voltage_v\<rparr>)))"

(*THEOREMS*)

section \<open>Properties\<close>

subsection \<open>The decade of a magnitude\<close>



lemma pow10_add1: "pow10 (k + 1) = 10 * pow10 k"
proof (cases "0 \<le> k")
  case True
  then have "nat (k + 1) = Suc (nat k)" by simp
  with True show ?thesis by (simp add: pow10_def)
next
  case False
  then have "nat (- k) = Suc (nat (- (k + 1)))" by simp
  with False show ?thesis by (simp add: pow10_def)
qed

lemma pow10_sub1: "pow10 (k - 1) = pow10 k / 10"
  using pow10_add1 [of "k - 1"] by simp

lemma floor_log10_bounds:
  "0 < x \<Longrightarrow> pow10 (floor_log10 x) \<le> x \<and> x < 10 * pow10 (floor_log10 x)"
proof (induction x rule: floor_log10.induct)
  case (1 x)
  show ?case
  proof (cases "x < 1")
    case True
    with 1 have ih: "pow10 (floor_log10 (x * 10)) \<le> x * 10 \<and>
        x * 10 < 10 * pow10 (floor_log10 (x * 10))" by simp
    have "floor_log10 x = floor_log10 (x * 10) - 1"
      using True 1(3) by (subst floor_log10.simps) simp
    with ih show ?thesis by (simp add: pow10_sub1)
  next
    case False
    show ?thesis
    proof (cases "10 \<le> x")
      case True
      with 1 False have ih: "pow10 (floor_log10 (x / 10)) \<le> x / 10 \<and>
        x / 10 < 10 * pow10 (floor_log10 (x / 10))" by simp
      have "floor_log10 x = floor_log10 (x / 10) + 1"
        using True by (subst floor_log10.simps) simp
      with ih show ?thesis by (simp add: pow10_add1)
    next
      case b: False
      have "floor_log10 x = 0"
        using False b by (subst floor_log10.simps) simp
      with False b show ?thesis by (simp add: pow10_def)
    qed
  qed
qed

lemma pow10_powr: "pow10 k = 10 powr (of_int k)"
  by (simp add: pow10_def powr_real_of_int field_simps)

lemma floor_log10_is_floor_log: "0 < x \<Longrightarrow> floor_log10 x = \<lfloor>log 10 x\<rfloor>"
proof -
  assume x: "0 < x"
  define k where "k = floor_log10 x"
  have b: "pow10 k \<le> x" "x < pow10 (k + 1)"
    using floor_log10_bounds [OF x] by (simp_all add: k_def pow10_add1)
  have "10 powr (of_int k) \<le> x" using b(1) by (simp only: pow10_powr)
  moreover have "x < 10 powr (of_int (k + 1))" using b(2) by (simp only: pow10_powr)
  ultimately have "\<lfloor>log 10 x\<rfloor> = k"
    using floor_log_eq_powr_iff [of x 10 k] x by simp
  then show ?thesis by (simp add: k_def)
qed


subsection \<open>C8: decade invariance of the series name\<close>



subsection \<open>C3: the series matcher\<close>








subsection \<open>C4: unrecognized colours\<close>





subsection \<open>C5: the 5-band search and its failure modes\<close>

text \<open>
  Claim C5: for every strictly positive resistance and supported tolerance, the 5-band
  search of \<^verbatim>\<open>_encode_5band\<close> either returns a well-formed 5-band result whose three
  digit bands encode the accepted significand in \<open>[100, 999]\<close>, or fails with the
  unrepresentable-value error; no other failure occurs.

  The code does not keep this promise at a candidate of exactly 999.5: the range test
  \<^verbatim>\<open>99.5 <= candidate <= 999.5\<close> lets it through, \<^verbatim>\<open>round\<close> gives 1000, the round-trip
  error 0.5 / 999.5 is below 0.001, and the first digit \<^verbatim>\<open>1000 // 100 = 10\<close> is not a key of
  \<^verbatim>\<open>DIGIT_TO_COLOR\<close>. The call ends in an uncaught \<^verbatim>\<open>KeyError\<close>, which is neither a result
  nor the \<^verbatim>\<open>ValueError\<close> the function documents.
\<close>

theorem encode_5band_keyerror_at_999_5:
  "encode_5band (1999 / 2) ''brown'' = Inl (KeyError (KInt 10))"
  by code_simp

subsection \<open>C2: grammar precedence in \<^verbatim>\<open>decode_capacitor\<close>\<close>

lemma try_electrolytic_fields:
  "try_electrolytic c = Some r \<Longrightarrow>
     cap_type r = ELECTROLYTIC \<and> DecodedCap.tolerance_percent r = Some 20 \<and>
     DecodedCap.tolerance_letter r = Some ''M'' \<and> confidence r = 95 / 100"
  by (auto simp: try_electrolytic_def Let_def split: option.splits)

text \<open>
  Claim C2: \<^verbatim>\<open>decode_capacitor\<close> tries the four grammars in the fixed order electrolytic,
  R-decimal, alphanumeric, bare EIA on the stripped marking and returns the first
  successful match (the unparsable-marking error when none matches); a match of the
  electrolytic grammar has type electrolytic, tolerance 20 percent with letter M and
  confidence 0.95. In particular \<^verbatim>\<open>"47uF 25V"\<close> is decoded by the electrolytic grammar.
\<close>

theorem decode_capacitor_precedence:
  "(py_strip marking \<noteq> [] \<longrightarrow>
      (\<forall>r. try_electrolytic (py_strip marking) = Some r \<longrightarrow>
           decode_capacitor marking = Inr r \<and> cap_type r = ELECTROLYTIC \<and>
           DecodedCap.tolerance_percent r = Some 20 \<and>
           DecodedCap.tolerance_letter r = Some ''M'' \<and> confidence r = 95 / 100) \<and>
      (try_electrolytic (py_strip marking) = None \<longrightarrow>
         (\<forall>r. try_rdecimal (py_strip marking) = Some r \<longrightarrow> decode_capacitor marking = Inr r) \<and>
         (try_rdecimal (py_strip marking) = None \<longrightarrow>
            (\<forall>r. try_alpha (py_strip marking) = Some r \<longrightarrow> decode_capacitor marking = Inr r) \<and>
            (try_alpha (py_strip marking) = None \<longrightarrow>
               (\<forall>r. try_eia (py_strip marking) = Some r \<longrightarrow> decode_capacitor marking = Inr r) \<and>
               (try_eia (py_strip marking) = None \<longrightarrow>
                  decode_capacitor marking = Inl (ValueError (UnableToDecode (py_strip marking))))))))
   \<and> decode_capacitor ''47uF 25V'' =
       Inr \<lparr>DecodedCap.capacitance = \<lparr>pf = 47000000, nf = 47000, uf = 47\<rparr>,
            DecodedCap.tolerance_percent = Some 20, DecodedCap.tolerance_letter = Some ''M'',
            voltage_max = Some 25, cap_type = ELECTROLYTIC, source_code = ''47uF 25V'',
            confidence = 95 / 100\<rparr>
   \<and> try_rdecimal ''47uF 25V'' = None \<and> try_alpha ''47uF 25V'' = None
   \<and> try_eia ''47uF 25V'' = None"
proof -
  have ex: "decode_capacitor ''47uF 25V'' =
       Inr \<lparr>DecodedCap.capacitance = \<lparr>pf = 47000000, nf = 47000, uf = 47\<rparr>,
            DecodedCap.tolerance_percent = Some 20, DecodedCap.tolerance_letter = Some ''M'',
            voltage_max = Some 25, cap_type = ELECTROLYTIC, source_code = ''47uF 25V'',
            confidence = 95 / 100\<rparr>"
    by code_simp
  have later: "try_rdecimal ''47uF 25V'' = None" "try_alpha ''47uF 25V'' = None"
    "try_eia ''47uF 25V'' = None"
    by code_simp+
  show ?thesis
    using ex later try_electrolytic_fields [of "py_strip marking"]
    by (simp add: decode_capacitor_def Let_def)
qed

text \<open>
  The order matters: \<^verbatim>\<open>"4n75"\<close> matches the R-decimal grammar (4.75 nF) and the alphanumeric
  one (4 nF, 75 V); the decoder returns the R-decimal reading.
\<close>

theorem decode_capacitor_precedence_witness:
  "py_strip ''4n75'' \<noteq> [] \<and> try_electrolytic (py_strip ''4n75'') = None
   \<and> try_alpha ''4n75'' =
       Some \<lparr>DecodedCap.capacitance = \<lparr>pf = 4000, nf = 4, uf = 4 / 1000\<rparr>,
            DecodedCap.tolerance_percent = None, DecodedCap.tolerance_letter = None,
            voltage_max = Some 75, cap_type = FILM_BOX, source_code = ''4n75'',
            confidence = 1\<rparr>
   \<and> decode_capacitor ''4n75'' =
       Inr \<lparr>DecodedCap.capacitance = \<lparr>pf = 4750, nf = 475 / 100, uf = 475 / 100000\<rparr>,
            DecodedCap.tolerance_percent = None, DecodedCap.tolerance_letter = None,
            voltage_max = None, cap_type = FILM_BOX, source_code = ''4n75'',
            confidence = 1\<rparr>"
proof -
  have h1: "py_strip ''4n75'' \<noteq> []" by code_simp
  have h2: "try_electrolytic (py_strip ''4n75'') = None" by code_simp
  have h3: "try_rdecimal (py_strip ''4n75'') =
       Some \<lparr>DecodedCap.capacitance = \<lparr>pf = 4750, nf = 475 / 100, uf = 475 / 100000\<rparr>,
            DecodedCap.tolerance_percent = None, DecodedCap.tolerance_letter = None,
            voltage_max = None, cap_type = FILM_BOX, source_code = ''4n75'',
            confidence = 1\<rparr>"
    by code_simp
  have h4: "try_alpha ''4n75'' =
       Some \<lparr>DecodedCap.capacitance = \<lparr>pf = 4000, nf = 4, uf = 4 / 1000\<rparr>,
            DecodedCap.tolerance_percent = None, DecodedCap.tolerance_letter = None,
            voltage_max = Some 75, cap_type = FILM_BOX, source_code = ''4n75'',
            confidence = 1\<rparr>"
    by code_simp
  from decode_capacitor_precedence [where marking = "''4n75''"] h1 h2 h3
  have "decode_capacitor ''4n75'' =
       Inr \<lparr>DecodedCap.capacitance = \<lparr>pf = 4750, nf = 475 / 100, uf = 475 / 100000\<rparr>,
            DecodedCap.tolerance_percent = None, DecodedCap.tolerance_letter = None,
            voltage_max = None, cap_type = FILM_BOX, source_code = ''4n75'',
            confidence = 1\<rparr>"
    by blast
  with h1 h2 h4 show ?thesis by blast
qed

subsection \<open>C10: the type heuristic\<close>

lemma guess_type_thresholds:
  "guess_type_from_pf p v =
     (if 1000000 \<le> p then ELECTROLYTIC else if p < 1000 then CERAMIC else FILM_BOX)"
  by (simp add: guess_type_from_pf_def Let_def)

lemma decoded_cap_type:
  "cap_type (decoded_cap p tg vs m) = guess_type_from_pf p (voltage_max (decoded_cap p tg vs m))
   \<and> pf (DecodedCap.capacitance (decoded_cap p tg vs m)) = p"
  by (simp add: decoded_cap_def Let_def pf_to_units_def)

lemma try_rdecimal_type:
  "try_rdecimal c = Some r \<Longrightarrow>
     cap_type r = guess_type_from_pf (pf (DecodedCap.capacitance r)) (voltage_max r)"
  using decoded_cap_type by (auto simp: try_rdecimal_def Let_def split: option.splits)

lemma try_alpha_type:
  "try_alpha c = Some r \<Longrightarrow>
     cap_type r = guess_type_from_pf (pf (DecodedCap.capacitance r)) (voltage_max r)"
  using decoded_cap_type by (auto simp: try_alpha_def Let_def split: option.splits)

lemma try_eia_type:
  "try_eia c = Some r \<Longrightarrow>
     cap_type r = guess_type_from_pf (pf (DecodedCap.capacitance r)) (voltage_max r)"
  using decoded_cap_type by (auto simp: try_eia_def Let_def split: option.splits)

text \<open>
  Claim C10: every marking decoded by a grammar other than the electrolytic one gets its
  type from \<^verbatim>\<open>_guess_type_from_pf\<close> applied to the decoded picofarads and voltage:
  electrolytic from 1 \<open>\<mu>\<close>F (1000000 pF) upwards, ceramic below 1000 pF, film/box in between,
  whatever the voltage. These three ranges cover every magnitude, so the final
  \<^verbatim>\<open>UNKNOWN\<close> of the function is never returned. \<^verbatim>\<open>decode_capacitor("473")\<close> is 47000 pF,
  film/box.
\<close>

theorem decode_capacitor_type_thresholds:
  "(decode_capacitor marking = Inr r \<and> try_electrolytic (py_strip marking) = None \<longrightarrow>
      cap_type r = guess_type_from_pf (pf (DecodedCap.capacitance r)) (voltage_max r) \<and>
      (1000000 \<le> pf (DecodedCap.capacitance r) \<longrightarrow> cap_type r = ELECTROLYTIC) \<and>
      (pf (DecodedCap.capacitance r) < 1000 \<longrightarrow> cap_type r = CERAMIC) \<and>
      (1000 \<le> pf (DecodedCap.capacitance r) \<and> pf (DecodedCap.capacitance r) < 1000000 \<longrightarrow>
         cap_type r = FILM_BOX))
   \<and> decode_capacitor ''473'' =
       Inr \<lparr>DecodedCap.capacitance = \<lparr>pf = 47000, nf = 47, uf = 47 / 1000\<rparr>,
            DecodedCap.tolerance_percent = None, DecodedCap.tolerance_letter = None,
            voltage_max = None, cap_type = FILM_BOX, source_code = ''473'',
            confidence = 1\<rparr>"
proof -
  have ex: "decode_capacitor ''473'' =
       Inr \<lparr>DecodedCap.capacitance = \<lparr>pf = 47000, nf = 47, uf = 47 / 1000\<rparr>,
            DecodedCap.tolerance_percent = None, DecodedCap.tolerance_letter = None,
            voltage_max = None, cap_type = FILM_BOX, source_code = ''473'',
            confidence = 1\<rparr>"
    by code_simp
  have g: "cap_type r = guess_type_from_pf (pf (DecodedCap.capacitance r)) (voltage_max r)"
    if "decode_capacitor marking = Inr r" "try_electrolytic (py_strip marking) = None"
    using that try_rdecimal_type [of "py_strip marking" r] try_alpha_type [of "py_strip marking" r]
      try_eia_type [of "py_strip marking" r]
    by (auto simp: decode_capacitor_def Let_def split: if_splits option.splits)
  show ?thesis
    using ex g by (auto simp: guess_type_thresholds)
qed

theorem decode_capacitor_type_thresholds_witness:
  "decode_capacitor ''222K100'' =
       Inr \<lparr>DecodedCap.capacitance = \<lparr>pf = 2200, nf = 22 / 10, uf = 22 / 10000\<rparr>,
            DecodedCap.tolerance_percent = Some 10, DecodedCap.tolerance_letter = Some ''K'',
            voltage_max = Some 100, cap_type = FILM_BOX, source_code = ''222K100'',
            confidence = 1\<rparr>
   \<and> try_electrolytic (py_strip ''222K100'') = None
   \<and> guess_type_from_pf 2200 (Some 100) = FILM_BOX"
proof -
  have h1: "decode_capacitor ''222K100'' =
       Inr \<lparr>DecodedCap.capacitance = \<lparr>pf = 2200, nf = 22 / 10, uf = 22 / 10000\<rparr>,
            DecodedCap.tolerance_percent = Some 10, DecodedCap.tolerance_letter = Some ''K'',
            voltage_max = Some 100, cap_type = FILM_BOX, source_code = ''222K100'',
            confidence = 1\<rparr>"
    by code_simp
  have h2: "try_electrolytic (py_strip ''222K100'') = None" by code_simp
  from decode_capacitor_type_thresholds [where marking = "''222K100''", THEN conjunct1] h1 h2
  have "guess_type_from_pf 2200 (Some 100) = FILM_BOX" by fastforce
  with h1 h2 show ?thesis by blast
qed

subsection \<open>C7: argument errors of \<^verbatim>\<open>encode_capacitor\<close>\<close>






subsection \<open>C9: the alphanumeric code\<close>

text \<open>
  The parts of claim C9 that hold: the example, and the choice of the unit (microfarads
  from 0.1 \<open>\<mu>\<close>F = 100000 pF upwards, else nanofarads from 0.1 nF = 100 pF upwards, else
  picofarads).
\<close>

lemma encode_capacitor_470pf:
  "map_sum id (\<lambda>e. (full_film_code e, full_alpha_code e))
     (encode_capacitor (Some 470) None None 10 None) = Inr (''471K'', ''0n47K'')"
  by code_simp

lemma encode_alpha_unit:
  "encode_alpha p = (if 100000 \<le> p then alpha_fmt (p / 1000000) ''u''
     else if 100 \<le> p then alpha_fmt (p / 1000) ''n'' else alpha_fmt p ''p'')"
  by (simp add: encode_alpha_def Let_def)

text \<open>
  Claim C9: the alphanumeric generator renders a non-integral value with the unit letter
  in place of the decimal point. The code misses this for two kinds of value, because
  \<^verbatim>\<open>_alpha_fmt\<close> prints the fractional part with \<^verbatim>\<open>.3g\<close> and strips the leading \<^verbatim>\<open>0.\<close>:
  a fractional part that rounds to 1.00 leaves the single digit \<^verbatim>\<open>1\<close> (4.9996 nF becomes
  \<^verbatim>\<open>4n1\<close>, which the module's own decoder reads as 4.1 nF), and a fractional part below
  0.0001 is printed in scientific notation (4.00001 nF becomes \<^verbatim>\<open>4n1e-05\<close>, which the
  decoder cannot read at all).
\<close>

theorem encode_alpha_not_rdecimal:
  "map_sum id alpha_code (encode_capacitor (Some (49996 / 10)) None None 10 None) = Inr ''4n1''
   \<and> map_sum id (pf \<circ> DecodedCap.capacitance) (decode_capacitor ''4n1'') = Inr 4100
   \<and> map_sum id alpha_code (encode_capacitor (Some (400001 / 100)) None None 10 None)
       = Inr ''4n1e-05''
   \<and> decode_capacitor ''4n1e-05'' = Inl (ValueError (UnableToDecode ''4n1e-05''))"
  by (intro conjI; code_simp)

subsection \<open>What the patterns capture\<close>





subsection \<open>C6: the sign of decoded magnitudes\<close>





lemma take_drop_runs:
  assumes "j \<le> length w" "\<forall>c \<in> set (take j w). P c"
  shows "\<exists>a r. w = a @ r \<and> (\<forall>c \<in> set a. P c) \<and> length a = j \<and> r = drop j w"
  using assms by (intro exI [of _ "take j w"] exI [of _ "drop j w"]) simp
























end
